theory Spec2Isabelle
  imports Main "HOL-Library.Word"
begin

section \<open>The mtail push exporter (exporter/export.go)\<close>

text \<open>
  A shallow embedding of \<^verbatim>\<open>exporter/export.go\<close>: the label serializer
  \<^verbatim>\<open>formatLabels\<close>, the constructor \<^verbatim>\<open>New\<close>, the socket writer
  \<^verbatim>\<open>writeSocketMetrics\<close>, the push cycle \<^verbatim>\<open>PushMetrics\<close> and the
  scheduler \<^verbatim>\<open>StartMetricPush\<close>.

  Go strings are byte sequences and are modelled as \<open>string\<close> (a list of 8-bit
  \<open>char\<close>s). Go errors are modelled by their message text.
\<close>

type_synonym error = string

subsection \<open>The Go library functions used by the serializer\<close>

text \<open>\<^verbatim>\<open>strings.HasPrefix(s, prefix)\<close>:
  \<^verbatim>\<open>len(s) >= len(prefix) && s[:len(prefix)] == prefix\<close>.\<close>

definition HasPrefix :: "string \<Rightarrow> string \<Rightarrow> bool" where
  "HasPrefix s p = (length p \<le> length s \<and> take (length p) s = p)"

text \<open>
  The size returned by \<^verbatim>\<open>utf8.DecodeRuneInString\<close>: 0 for the empty string, the
  width of the first rune when the string starts with a well-formed UTF-8 sequence, and 1
  for every malformed or truncated sequence.
\<close>

fun DecodeRuneInString_size :: "string \<Rightarrow> nat" where
  "DecodeRuneInString_size [] = 0"
| "DecodeRuneInString_size (c0 # rest) =
     (let s0 = (of_char c0 :: nat) in
      if s0 < 0x80 \<or> s0 < 0xC2 \<or> 0xF4 < s0 then 1
      else
        let sz = (if s0 < 0xE0 then 2 else if s0 < 0xF0 then 3 else (4::nat));
            lo = (if s0 = 0xE0 then 0xA0 else if s0 = 0xF0 then 0x90 else (0x80::nat));
            hi = (if s0 = 0xED then 0x9F else if s0 = 0xF4 then 0x8F else (0xBF::nat))
        in
          if length (c0 # rest) < sz then 1
          else if (of_char (rest ! 0) :: nat) < lo \<or> hi < (of_char (rest ! 0) :: nat) then 1
          else if sz \<le> 2 then 2
          else if (of_char (rest ! 1) :: nat) < 0x80 \<or> 0xBF < (of_char (rest ! 1) :: nat) then 1
          else if sz \<le> 3 then 3
          else if (of_char (rest ! 2) :: nat) < 0x80 \<or> 0xBF < (of_char (rest ! 2) :: nat) then 1
          else 4)"

text \<open>
  \<^verbatim>\<open>strings.Replace(s, old, new, -1)\<close> for a non-empty \<open>old\<close>: scanning from the
  left, every non-overlapping occurrence of \<open>old\<close> is replaced by \<open>new\<close>.
\<close>

fun replace_nonempty :: "string \<Rightarrow> string \<Rightarrow> string \<Rightarrow> string" where
  "replace_nonempty [] old new = []"
| "replace_nonempty (c # cs) old new =
     (if HasPrefix (c # cs) old
      then new @ replace_nonempty (drop (length old - 1) cs) old new
      else c # replace_nonempty cs old new)"

text \<open>
  \<^verbatim>\<open>strings.Replace(s, "", new, -1)\<close>: the empty string matches before every rune
  and at the end of the string. \<open>after_runes\<close> copies each rune followed by \<open>new\<close>.
\<close>

fun after_runes :: "string \<Rightarrow> string \<Rightarrow> string" where
  "after_runes [] new = []"
| "after_runes (c # cs) new =
     take (DecodeRuneInString_size (c # cs)) (c # cs) @ new
       @ after_runes (drop (DecodeRuneInString_size (c # cs) - 1) cs) new"

text \<open>\<^verbatim>\<open>strings.Replace(s, old, new, -1)\<close>; it returns \<open>s\<close> at once when
  \<^verbatim>\<open>old == new\<close>.\<close>

definition Replace :: "string \<Rightarrow> string \<Rightarrow> string \<Rightarrow> string" where
  "Replace s old new =
     (if old = new then s
      else if old = [] then new @ after_runes s new
      else replace_nonempty s old new)"

text \<open>\<^verbatim>\<open>strings.Join(elems, sep)\<close>.\<close>

fun Join :: "string list \<Rightarrow> string \<Rightarrow> string" where
  "Join [] sep = []"
| "Join [a] sep = a"
| "Join (a # b # bs) sep = a @ sep @ Join (b # bs) sep"

subsection \<open>formatLabels\<close>

text \<open>
  The label map \<^verbatim>\<open>m map[string]string\<close> is an association list: the entries of
  the map in the order in which this call's \<^verbatim>\<open>range m\<close> visits them (Go leaves
  that order unspecified, so every order is a possible input).

  \<open>formatLabels_range\<close> is the loop \<^verbatim>\<open>for k, v := range m\<close>, with the slice
  \<open>s\<close> as accumulator; \<^verbatim>\<open>fmt.Sprintf("%s%s%s", k1, ksep, v1)\<close> is the
  concatenation of the three strings.
\<close>

fun formatLabels_range ::
  "(string \<times> string) list \<Rightarrow> string \<Rightarrow> string \<Rightarrow> string \<Rightarrow> string list \<Rightarrow> string list"
where
  "formatLabels_range [] ksep sep rep s = s"
| "formatLabels_range ((k, v) # m) ksep sep rep s =
     (let k1 = Replace (Replace k ksep rep) sep rep;
          v1 = Replace (Replace v ksep rep) sep rep
      in formatLabels_range m ksep sep rep (s @ [k1 @ ksep @ v1]))"

definition formatLabels ::
  "string \<Rightarrow> (string \<times> string) list \<Rightarrow> string \<Rightarrow> string \<Rightarrow> string \<Rightarrow> string"
where
  "formatLabels name m ksep sep rep =
     (let r = name in
      if length m > 0
      then r @ sep @ Join (formatLabels_range m ksep sep rep []) sep
      else r)"

subsection \<open>The registry, the exporter and its surroundings\<close>

text \<open>
  Modelled from the spec: the package \<^verbatim>\<open>metrics\<close> (\<^verbatim>\<open>Store\<close>,
  \<^verbatim>\<open>Metric\<close>, \<^verbatim>\<open>LabelSet\<close>, their read locks and
  \<^verbatim>\<open>EmitLabelSets\<close>) is not among the sources. A label set is a snapshot of a
  label mapping and a value; a metric has a name, its own lock and produces, on demand, the
  finite sequence of its current label sets, each once; the registry maps a metric name to
  a list of metrics and has a lock of its own.

  \<open>mid\<close> is the identity of a \<^verbatim>\<open>*metrics.Metric\<close> (the object that owns the
  lock); \<open>LabelSets\<close> is the sequence that \<^verbatim>\<open>EmitLabelSets\<close> sends on the
  channel before closing it; \<open>Metrics\<close> lists the entries of the map
  \<^verbatim>\<open>store.Metrics\<close> in the order in which \<^verbatim>\<open>range\<close> visits them.
\<close>

record LabelSet =
  Labels :: "(string \<times> string) list"
  Datum :: int

record Metric =
  mid :: nat
  Name :: string
  LabelSets :: "LabelSet list"

record Store =
  Metrics :: "(string \<times> Metric list) list"

text \<open>\<^verbatim>\<open>type formatter func(string, *metrics.Metric, *metrics.LabelSet) string\<close>\<close>

type_synonym formatter = "string \<Rightarrow> Metric \<Rightarrow> LabelSet \<Rightarrow> string"

text \<open>
  \<^verbatim>\<open>pushOptions\<close>. The two counters are \<^verbatim>\<open>*expvar.Int\<close>: references to
  shared 64-bit integers, modelled as the name of the variable in the store \<open>vars\<close> of
  the world below. The fields \<^verbatim>\<open>f\<close>, \<^verbatim>\<open>total\<close> and \<^verbatim>\<open>success\<close> are
  \<open>fmt_f\<close>, \<open>total_var\<close> and \<open>success_var\<close> here, and the field \<^verbatim>\<open>o\<close> of
  \<^verbatim>\<open>Exporter\<close> is \<open>opts\<close> (\<open>o\<close> and \<open>total\<close> are constants of HOL). An
  \<^verbatim>\<open>Exporter\<close> is made by \<^verbatim>\<open>New\<close> only, so its store is never
  \<^verbatim>\<open>nil\<close>.
\<close>

record pushOptions =
  net :: string
  addr :: string
  fmt_f :: formatter
  total_var :: string
  success_var :: string

record Options =
  Store :: "Store option"
  Hostname :: string
  OmitProgLabel :: bool

record Exporter =
  store :: Store
  opts :: Options
  pushTargets :: "pushOptions list"

text \<open>
  What the program does to the outside, in program order: the calls on the network
  (\<^verbatim>\<open>net.DialTimeout\<close> with network, address, timeout and result;
  \<^verbatim>\<open>conn.SetDeadline\<close>; each \<^verbatim>\<open>Write\<close> made by \<^verbatim>\<open>fmt.Fprint\<close>
  with the line and its result; \<^verbatim>\<open>conn.Close\<close>). Logging through glog is not
  modelled.
\<close>

datatype event =
    Dial string string "64 word" "error option"
  | SetDeadline "64 word" "error option"
  | Write string "error option"
  | Close "error option"

text \<open>
  The mutable state: the expvar integers (\<^verbatim>\<open>int64\<close>, so \<open>+\<close> wraps), the
  number of read holds on the store's lock and on each metric's lock, and the events so
  far. Only readers are modelled, so \<^verbatim>\<open>RLock\<close> never blocks.
\<close>

record world =
  vars :: "string \<Rightarrow> 64 word"
  store_readers :: nat
  metric_readers :: "nat \<Rightarrow> nat"
  trace :: "event list"

text \<open>
  A connection as \<^verbatim>\<open>net.DialTimeout\<close> returns it: how it will answer
  (\<open>Write_err c k\<close> is the result of the \<open>k\<close>-th call of \<^verbatim>\<open>Write\<close>, counted
  from 0; \<open>None\<close> is Go's \<^verbatim>\<open>nil\<close>) and how many writes it has seen.
\<close>

record conn =
  SetDeadline_err :: "error option"
  Write_err :: "nat \<Rightarrow> error option"
  Close_err :: "error option"
  nwrites :: nat

text \<open>
  The parameters of the package that are declared outside this file: the command-line
  flags (\<open>pushInterval\<close> in seconds, \<open>writeDeadline\<close> a \<^verbatim>\<open>time.Duration\<close> in
  nanoseconds, the three backend addresses), the three backend formatters, the result of
  \<^verbatim>\<open>os.Hostname()\<close>, and the network: \<open>net_DialTimeout env t network address\<close> is
  the result of dialling when \<open>t\<close> events have happened.
\<close>

record env =
  pushInterval :: int
  writeDeadline :: "64 word"
  collectdSocketPath :: string
  graphiteHostPort :: string
  statsdHostPort :: string
  metricToCollectd :: formatter
  metricToGraphite :: formatter
  metricToStatsd :: formatter
  os_Hostname :: "error + string"
  net_DialTimeout :: "nat \<Rightarrow> string \<Rightarrow> string \<Rightarrow> error + conn"

subsection \<open>New and RegisterPushExport\<close>

definition RegisterPushExport :: "Exporter \<Rightarrow> pushOptions \<Rightarrow> Exporter" where
  "RegisterPushExport e p = e\<lparr>pushTargets := pushTargets e @ [p]\<rparr>"

text \<open>
  \<^verbatim>\<open>New\<close>. \<^verbatim>\<open>errors.Wrap(err, "getting hostname")\<close> has the message
  \<^verbatim>\<open>"getting hostname: " + err.Error()\<close>. The counters of the three backends are
  named after the package variables that hold them.
\<close>

definition New :: "env \<Rightarrow> Options \<Rightarrow> error + Exporter" where
  "New env opt = (case Store opt of
       None \<Rightarrow> Inl ''exporter needs a Store''
     | Some st \<Rightarrow>
        (case (if Hostname opt = [] then os_Hostname env else Inr (Hostname opt)) of
           Inl err \<Rightarrow> Inl (''getting hostname: '' @ err)
         | Inr h \<Rightarrow>
            (let o1 = opt\<lparr>Hostname := h\<rparr>;
                 e0 = \<lparr>store = st, opts = o1, pushTargets = []\<rparr>;
                 e1 = (if collectdSocketPath env \<noteq> []
                       then RegisterPushExport e0
                              \<lparr>net = ''unix'', addr = collectdSocketPath env,
                               fmt_f = metricToCollectd env,
                               total_var = ''collectdExportTotal'',
                               success_var = ''collectdExportSuccess''\<rparr>
                       else e0);
                 e2 = (if graphiteHostPort env \<noteq> []
                       then RegisterPushExport e1
                              \<lparr>net = ''tcp'', addr = graphiteHostPort env,
                               fmt_f = metricToGraphite env,
                               total_var = ''graphiteExportTotal'',
                               success_var = ''graphiteExportSuccess''\<rparr>
                       else e1);
                 e3 = (if statsdHostPort env \<noteq> []
                       then RegisterPushExport e2
                              \<lparr>net = ''udp'', addr = statsdHostPort env,
                               fmt_f = metricToStatsd env,
                               total_var = ''statsdExportTotal'',
                               success_var = ''statsdExportSuccess''\<rparr>
                       else e2)
             in Inr e3)))"

subsection \<open>writeSocketMetrics\<close>

definition Add :: "string \<Rightarrow> 64 word \<Rightarrow> world \<Rightarrow> world" where
  "Add v delta w = w\<lparr>vars := (vars w)(v := vars w v + delta)\<rparr>"

definition Store_RLock :: "world \<Rightarrow> world" where
  "Store_RLock w = w\<lparr>store_readers := Suc (store_readers w)\<rparr>"

definition Store_RUnlock :: "world \<Rightarrow> world" where
  "Store_RUnlock w = w\<lparr>store_readers := store_readers w - 1\<rparr>"

definition Metric_RLock :: "Metric \<Rightarrow> world \<Rightarrow> world" where
  "Metric_RLock m w = w\<lparr>metric_readers := (metric_readers w)(mid m := Suc (metric_readers w (mid m)))\<rparr>"

definition Metric_RUnlock :: "Metric \<Rightarrow> world \<Rightarrow> world" where
  "Metric_RUnlock m w = w\<lparr>metric_readers := (metric_readers w)(mid m := metric_readers w (mid m) - 1)\<rparr>"

text \<open>\<^verbatim>\<open>fmt.Fprint(c, line)\<close>: one \<^verbatim>\<open>Write\<close> on the connection.\<close>

definition Fprint :: "conn \<Rightarrow> string \<Rightarrow> world \<Rightarrow> error option \<times> conn \<times> world" where
  "Fprint c line w =
     (let err = Write_err c (nwrites c)
      in (err, c\<lparr>nwrites := Suc (nwrites c)\<rparr>, w\<lparr>trace := trace w @ [Write line err]\<rparr>))"

text \<open>
  The loop \<^verbatim>\<open>for l := range lc\<close> over the label sets that the metric emits. A
  failed write returns from \<^verbatim>\<open>writeSocketMetrics\<close> with
  \<^verbatim>\<open>errors.Errorf("write error: %s\n", err)\<close>.
\<close>

fun range_lc ::
  "string \<Rightarrow> formatter \<Rightarrow> string \<Rightarrow> Metric \<Rightarrow> LabelSet list \<Rightarrow> conn \<Rightarrow> world
     \<Rightarrow> error option \<times> conn \<times> world"
where
  "range_lc hostname f exportSuccess m [] c w = (None, c, w)"
| "range_lc hostname f exportSuccess m (l # ls) c w =
     (let line = f hostname m l in
      case Fprint c line w of
        (None, c1, w1) \<Rightarrow> range_lc hostname f exportSuccess m ls c1 (Add exportSuccess 1 w1)
      | (Some err, c1, w1) \<Rightarrow> (Some (''write error: '' @ err @ [CHR 0x0A]), c1, w1))"

text \<open>
  The loop \<^verbatim>\<open>for _, m := range ml\<close>: lock the metric, count it in
  \<open>exportTotal\<close>, write its label sets, unlock it. The error return of the inner loop
  leaves the function before \<^verbatim>\<open>m.RUnlock()\<close>.
\<close>

fun range_ml ::
  "string \<Rightarrow> formatter \<Rightarrow> string \<Rightarrow> string \<Rightarrow> Metric list \<Rightarrow> conn \<Rightarrow> world
     \<Rightarrow> error option \<times> conn \<times> world"
where
  "range_ml hostname f exportTotal exportSuccess [] c w = (None, c, w)"
| "range_ml hostname f exportTotal exportSuccess (m # ml) c w =
     (let w1 = Metric_RLock m w;
          w2 = Add exportTotal 1 w1
      in case range_lc hostname f exportSuccess m (LabelSets m) c w2 of
           (Some err, c3, w3) \<Rightarrow> (Some err, c3, w3)
         | (None, c3, w3) \<Rightarrow>
             range_ml hostname f exportTotal exportSuccess ml c3 (Metric_RUnlock m w3))"

text \<open>The loop \<^verbatim>\<open>for _, ml := range e.store.Metrics\<close>.\<close>

fun range_Metrics ::
  "string \<Rightarrow> formatter \<Rightarrow> string \<Rightarrow> string \<Rightarrow> (string \<times> Metric list) list \<Rightarrow> conn \<Rightarrow> world
     \<Rightarrow> error option \<times> conn \<times> world"
where
  "range_Metrics hostname f exportTotal exportSuccess [] c w = (None, c, w)"
| "range_Metrics hostname f exportTotal exportSuccess ((name, ml) # rest) c w =
     (case range_ml hostname f exportTotal exportSuccess ml c w of
        (Some err, c1, w1) \<Rightarrow> (Some err, c1, w1)
      | (None, c1, w1) \<Rightarrow> range_Metrics hostname f exportTotal exportSuccess rest c1 w1)"

text \<open>
  \<^verbatim>\<open>writeSocketMetrics\<close>: the store is read-locked first and, by
  \<^verbatim>\<open>defer\<close>, unlocked on every return.
\<close>

definition writeSocketMetrics ::
  "Exporter \<Rightarrow> conn \<Rightarrow> formatter \<Rightarrow> string \<Rightarrow> string \<Rightarrow> world \<Rightarrow> error option \<times> conn \<times> world"
where
  "writeSocketMetrics e c f exportTotal exportSuccess w =
     (case range_Metrics (Hostname (opts e)) f exportTotal exportSuccess
             (Metrics (store e)) c (Store_RLock w) of
        (err, c1, w1) \<Rightarrow> (err, c1, Store_RUnlock w1))"

subsection \<open>PushMetrics\<close>

text \<open>
  The loop \<^verbatim>\<open>for _, target := range e.pushTargets\<close>. A failed dial goes on to
  the next target (\<^verbatim>\<open>continue\<close>); the results of \<^verbatim>\<open>SetDeadline\<close>, of
  \<^verbatim>\<open>writeSocketMetrics\<close> and of \<^verbatim>\<open>Close\<close> are only logged.
\<close>

fun PushMetrics_range :: "env \<Rightarrow> Exporter \<Rightarrow> pushOptions list \<Rightarrow> world \<Rightarrow> world" where
  "PushMetrics_range env e [] w = w"
| "PushMetrics_range env e (target # rest) w =
     (case net_DialTimeout env (length (trace w)) (net target) (addr target) of
        Inl err \<Rightarrow>
          PushMetrics_range env e rest
            (w\<lparr>trace := trace w @ [Dial (net target) (addr target) (writeDeadline env) (Some err)]\<rparr>)
      | Inr c \<Rightarrow>
          (let w1 = w\<lparr>trace := trace w @ [Dial (net target) (addr target) (writeDeadline env) None]\<rparr>;
               w2 = w1\<lparr>trace := trace w1 @ [SetDeadline (writeDeadline env) (SetDeadline_err c)]\<rparr>
           in case writeSocketMetrics e c (fmt_f target) (total_var target) (success_var target) w2 of
                (err, c3, w3) \<Rightarrow>
                  PushMetrics_range env e rest (w3\<lparr>trace := trace w3 @ [Close (Close_err c3)]\<rparr>)))"

definition PushMetrics :: "env \<Rightarrow> Exporter \<Rightarrow> world \<Rightarrow> world" where
  "PushMetrics env e w = PushMetrics_range env e (pushTargets e) w"

subsection \<open>StartMetricPush\<close>

text \<open>
  \<^verbatim>\<open>time.NewTicker(d)\<close> panics unless \<open>d\<close>, a signed 64-bit number of
  nanoseconds, is positive.
\<close>

record Ticker =
  period :: "64 word"

definition Second :: "64 word" where
  "Second = 1000000000"

definition NewTicker :: "64 word \<Rightarrow> error + Ticker" where
  "NewTicker d =
     (if sint d \<le> 0 then Inl ''non-positive interval for NewTicker'' else Inr \<lparr>period = d\<rparr>)"

text \<open>
  \<^verbatim>\<open>StartMetricPush\<close> returns the ticker that drives the goroutine it started, if it
  started one; \<^verbatim>\<open>time.Duration(*pushInterval) * time.Second\<close> is a 64-bit product.
\<close>

definition StartMetricPush :: "env \<Rightarrow> Exporter \<Rightarrow> error + Ticker option" where
  "StartMetricPush env e =
     (if length (pushTargets e) > 0
      then (case NewTicker (word_of_int (pushInterval env) * Second) of
              Inl p \<Rightarrow> Inl p
            | Inr ticker \<Rightarrow> Inr (Some ticker))
      else Inr None)"

text \<open>
  The goroutine \<^verbatim>\<open>for range ticker.C { e.PushMetrics() }\<close>, after it has received
  \<open>n\<close> ticks.
\<close>

fun ticker_loop :: "env \<Rightarrow> Exporter \<Rightarrow> nat \<Rightarrow> world \<Rightarrow> world" where
  "ticker_loop env e 0 w = w"
| "ticker_loop env e (Suc n) w = ticker_loop env e n (PushMetrics env e w)"

text \<open>
  The world \<open>n\<close> ticker periods after a call of \<^verbatim>\<open>StartMetricPush\<close>: without a
  ticker nothing runs.
\<close>

definition background :: "env \<Rightarrow> Exporter \<Rightarrow> nat \<Rightarrow> world \<Rightarrow> error + world" where
  "background env e n w =
     (case StartMetricPush env e of
        Inl p \<Rightarrow> Inl p
      | Inr None \<Rightarrow> Inr w
      | Inr (Some ticker) \<Rightarrow> Inr (ticker_loop env e n w))"

subsection \<open>Notions used to state the properties\<close>

text \<open>
  The lines of one export pass, in the order in which the loops of
  \<^verbatim>\<open>writeSocketMetrics\<close> produce them: for every metric of the registry, one line
  for each of its label sets.
\<close>

definition metric_lines :: "string \<Rightarrow> formatter \<Rightarrow> Metric \<Rightarrow> string list" where
  "metric_lines hostname f m = map (f hostname m) (LabelSets m)"

definition all_metrics :: "Store \<Rightarrow> Metric list" where
  "all_metrics st = concat (map snd (Metrics st))"

definition store_lines :: "string \<Rightarrow> formatter \<Rightarrow> Store \<Rightarrow> string list" where
  "store_lines hostname f st = concat (map (metric_lines hostname f) (all_metrics st))"

text \<open>
  What a connection that answers the \<open>k\<close>-th write with \<open>we k\<close> does with a list of
  lines sent one by one until the first failure: the write events, the number of
  successful writes and the first error.
\<close>

fun write_events :: "(nat \<Rightarrow> error option) \<Rightarrow> nat \<Rightarrow> string list \<Rightarrow> event list" where
  "write_events we k [] = []"
| "write_events we k (l # ls) =
     (case we k of
        None \<Rightarrow> Write l None # write_events we (Suc k) ls
      | Some err \<Rightarrow> [Write l (Some err)])"

fun written_ok :: "(nat \<Rightarrow> error option) \<Rightarrow> nat \<Rightarrow> string list \<Rightarrow> nat" where
  "written_ok we k [] = 0"
| "written_ok we k (l # ls) =
     (case we k of None \<Rightarrow> Suc (written_ok we (Suc k) ls) | Some err \<Rightarrow> 0)"

fun first_error :: "(nat \<Rightarrow> error option) \<Rightarrow> nat \<Rightarrow> string list \<Rightarrow> error option" where
  "first_error we k [] = None"
| "first_error we k (l # ls) =
     (case we k of None \<Rightarrow> first_error we (Suc k) ls | Some err \<Rightarrow> Some err)"


text \<open>The network and address of the dial attempts in a trace, in order.\<close>

fun dials :: "event list \<Rightarrow> (string \<times> string) list" where
  "dials [] = []"
| "dials (Dial n a d r # evs) = (n, a) # dials evs"
| "dials (ev # evs) = dials evs"

fun is_Write :: "event \<Rightarrow> bool" where
  "is_Write (Write l r) = True"
| "is_Write ev = False"

fun is_Close :: "event \<Rightarrow> bool" where
  "is_Close (Close r) = True"
| "is_Close ev = False"

text \<open>
  The events of one complete push to a target: either a single failed dial, or a
  successful dial, the deadline, then writes only, and the close at the end.
\<close>

fun is_push :: "env \<Rightarrow> pushOptions \<Rightarrow> event list \<Rightarrow> bool" where
  "is_push env target [Dial n a d (Some err)] =
     (n = net target \<and> a = addr target \<and> d = writeDeadline env)"
| "is_push env target (Dial n a d None # SetDeadline d' r # evs) =
     (n = net target \<and> a = addr target \<and> d = writeDeadline env \<and> d' = writeDeadline env
      \<and> evs \<noteq> [] \<and> list_all is_Write (butlast evs) \<and> is_Close (last evs))"
| "is_push env target evs = False"

text \<open>
  The world after the body of the loop of \<^verbatim>\<open>PushMetrics\<close> has run for a target
  whose dial returned the connection \<open>c\<close>.
\<close>

definition pushed :: "env \<Rightarrow> Exporter \<Rightarrow> pushOptions \<Rightarrow> conn \<Rightarrow> world \<Rightarrow> world" where
  "pushed env e target c w =
     (let w3 = snd (snd (writeSocketMetrics e c (fmt_f target) (total_var target) (success_var target)
                 (w\<lparr>trace := trace w @ [Dial (net target) (addr target) (writeDeadline env) None,
                      SetDeadline (writeDeadline env) (SetDeadline_err c)]\<rparr>)))
      in w3\<lparr>trace := trace w3 @ [Close (Close_err c)]\<rparr>)"

subsection \<open>Example data\<close>

text \<open>
  The registry of the spec's test: the metric \<open>requests\<close> with the two label sets
  \<open>{region: us} \<rightarrow> 5\<close> and \<open>{region: eu} \<rightarrow> 3\<close>; one target; connections that are
  healthy or fail at a given write; a world in which nothing has happened.
\<close>

definition requests :: Metric where
  "requests = \<lparr>mid = 0, Name = ''requests'',
      LabelSets = [\<lparr>Labels = [(''region'', ''us'')], Datum = 5\<rparr>,
                   \<lparr>Labels = [(''region'', ''eu'')], Datum = 3\<rparr>]\<rparr>"

definition registry :: Store where
  "registry = \<lparr>Metrics = [(''requests'', [requests])]\<rparr>"

definition example_formatter :: formatter where
  "example_formatter hostname m l =
     hostname @ ''.'' @ formatLabels (Name m) (Labels l) ''='' '','' ''_''"

definition example_target :: pushOptions where
  "example_target = \<lparr>net = ''tcp'', addr = ''graphite:2003'', fmt_f = example_formatter,
      total_var = ''exportTotal'', success_var = ''exportSuccess''\<rparr>"

definition example_exporter :: "pushOptions list \<Rightarrow> Exporter" where
  "example_exporter targets =
     \<lparr>store = registry,
      opts = \<lparr>Store = Some registry, Hostname = ''host'', OmitProgLabel = False\<rparr>,
      pushTargets = targets\<rparr>"

definition healthy :: conn where
  "healthy = \<lparr>SetDeadline_err = None, Write_err = (\<lambda>k. None), Close_err = None, nwrites = 0\<rparr>"

definition fails_at :: "nat \<Rightarrow> conn" where
  "fails_at j = \<lparr>SetDeadline_err = None,
      Write_err = (\<lambda>k. if k = j then Some ''broken pipe'' else None),
      Close_err = None, nwrites = 0\<rparr>"

definition example_env :: "int \<Rightarrow> (nat \<Rightarrow> string \<Rightarrow> string \<Rightarrow> error + conn) \<Rightarrow> env" where
  "example_env interval dial =
     \<lparr>pushInterval = interval, writeDeadline = 10 * Second,
      collectdSocketPath = [], graphiteHostPort = ''graphite:2003'', statsdHostPort = [],
      metricToCollectd = example_formatter, metricToGraphite = example_formatter,
      metricToStatsd = example_formatter,
      os_Hostname = Inr ''host'', net_DialTimeout = dial\<rparr>"

definition world0 :: world where
  "world0 = \<lparr>vars = (\<lambda>v. 0), store_readers = 0, metric_readers = (\<lambda>i. 0), trace = []\<rparr>"

section \<open>The label serializer\<close>

lemma formatLabels_range_acc:
  "formatLabels_range m ksep sep rep s =
     s @ map (\<lambda>(k, v). Replace (Replace k ksep rep) sep rep @ ksep
                        @ Replace (Replace v ksep rep) sep rep) m"
  by (induction m arbitrary: s) (auto simp: Let_def)

lemma sep_Join: "xs \<noteq> [] \<Longrightarrow> sep @ Join xs sep = concat (map (\<lambda>x. sep @ x) xs)"
  by (induction xs sep rule: Join.induct) auto

lemma formatLabels_concat:
  "formatLabels name m ksep sep rep =
     name @ concat (map (\<lambda>(k, v). sep @ Replace (Replace k ksep rep) sep rep @ ksep
                        @ Replace (Replace v ksep rep) sep rep) m)"
proof (cases "m = []")
  case True
  then show ?thesis by (simp add: formatLabels_def)
next
  case False
  then have "formatLabels_range m ksep sep rep [] \<noteq> []"
    by (simp add: formatLabels_range_acc)
  from sep_Join [OF this, of sep] False show ?thesis
    by (simp add: formatLabels_def formatLabels_range_acc comp_def case_prod_unfold)
qed

text \<open>
  C7. For every name and every keySep, pairSep and replacement, \<open>formatLabels\<close> applied
  to an empty label mapping returns the name unchanged.
\<close>

theorem formatLabels_empty: "formatLabels name [] ksep sep rep = name"
  by (simp add: formatLabels_def)






text \<open>
  With an empty \<open>old\<close>, on a text of ASCII characters, \<^verbatim>\<open>strings.Replace\<close> puts
  \<open>new\<close> before every character and at the end.
\<close>

lemma Replace_empty_ascii:
  "list_all (\<lambda>c. (of_char c :: nat) < 0x80) s \<Longrightarrow> new \<noteq> [] \<Longrightarrow>
   Replace s [] new = new @ concat (map (\<lambda>c. c # new) s)"
  by (induction s) (auto simp: Replace_def)




text \<open>
  C10. \<open>formatLabels\<close> never escapes the metric name: the result is the name, verbatim,
  followed by a text that does not depend on the name, whatever separators the name
  contains.
\<close>

theorem formatLabels_name_verbatim:
  "formatLabels name m ksep sep rep = name @ formatLabels [] m ksep sep rep
   \<and> take (length name) (formatLabels name m ksep sep rep) = name"
  by (simp add: formatLabels_def)

lemma replace_nonempty_removes:
  "a \<notin> set new \<Longrightarrow> a \<notin> set (replace_nonempty s [a] new)"
  by (induction s) (auto simp: HasPrefix_def)

lemma replace_nonempty_keeps_out:
  "b \<notin> set new \<Longrightarrow> b \<notin> set s \<Longrightarrow> b \<notin> set (replace_nonempty s [a] new)"
  by (induction s) (auto simp: HasPrefix_def)

lemma Replace_removes: "a \<notin> set new \<Longrightarrow> a \<notin> set (Replace s [a] new)"
  by (auto simp: Replace_def replace_nonempty_removes)

lemma Replace_keeps_out:
  "b \<notin> set new \<Longrightarrow> b \<notin> set s \<Longrightarrow> b \<notin> set (Replace s [a] new)"
  by (auto simp: Replace_def replace_nonempty_keeps_out)

lemma escaped_clean:
  assumes "a \<notin> set rep" "b \<notin> set rep"
  shows "a \<notin> set (Replace (Replace s [a] rep) [b] rep)"
    and "b \<notin> set (Replace (Replace s [a] rep) [b] rep)"
  using assms by (simp_all add: Replace_removes Replace_keeps_out)

lemma filter_clean: "a \<notin> set s \<Longrightarrow> b \<notin> set s \<Longrightarrow> filter (\<lambda>c. c = a \<or> c = b) s = []"
  by (induction s) auto

lemma separators_counted:
  assumes "a \<notin> set rep" "b \<notin> set rep"
  shows "length (filter (\<lambda>c. c = a \<or> c = b)
           (concat (map (\<lambda>(k, v). [b] @ Replace (Replace k [a] rep) [b] rep @ [a]
                        @ Replace (Replace v [a] rep) [b] rep) m))) = 2 * length m"
  using assms by (induction m) (auto simp: filter_clean escaped_clean)

text \<open>
  C3, as stated: for every label mapping whose keys or values contain keySep or pairSep
  and every replacement string, the result has no occurrence of a separator outside the
  positions where \<open>formatLabels\<close> itself puts one. It fails when the replacement
  contains a separator (here the replacement is the pair separator: the comma of the value
  is still there, three separator characters for two structural positions), and when a
  separator of several characters is formed by the replacement (here \<open>==\<close> appears
  inside the key).
\<close>

theorem formatLabels_separator_survives:
  "formatLabels ''latency'' [(''path'', ''/a,b'')] ''='' '','' '','' = ''latency,path=/a,b''
   \<and> length (filter (\<lambda>c. c = CHR ''='' \<or> c = CHR '','')
        (drop (length ''latency'')
           (formatLabels ''latency'' [(''path'', ''/a,b'')] ''='' '','' '',''))) = 3
   \<and> 2 * length [(''path'', ''/a,b'')] = 2
   \<and> formatLabels ''m'' [(''x=,y'', ''v'')] ''=='' '','' ''='' = ''m,x==y==v''"
  by (simp add: formatLabels_def Replace_def HasPrefix_def)

text \<open>
  C3, amended: when keySep and pairSep are single characters \<open>a\<close> and \<open>b\<close> and the
  replacement contains neither, every key and value is free of both characters after the
  replacement, the result is the name followed by \<open>b key a value\<close> for each label, and
  the text after the name holds exactly two separator characters for each label: the ones
  \<open>formatLabels\<close> inserted.
\<close>

theorem formatLabels_separators_structural:
  assumes "a \<notin> set rep" and "b \<notin> set rep"
  shows "list_all (\<lambda>(k, v). a \<notin> set (Replace (Replace k [a] rep) [b] rep)
                   \<and> b \<notin> set (Replace (Replace k [a] rep) [b] rep)
                   \<and> a \<notin> set (Replace (Replace v [a] rep) [b] rep)
                   \<and> b \<notin> set (Replace (Replace v [a] rep) [b] rep)) m
       \<and> formatLabels name m [a] [b] rep =
           name @ concat (map (\<lambda>(k, v). [b] @ Replace (Replace k [a] rep) [b] rep @ [a]
                        @ Replace (Replace v [a] rep) [b] rep) m)
       \<and> length (filter (\<lambda>c. c = a \<or> c = b)
           (drop (length name) (formatLabels name m [a] [b] rep))) = 2 * length m"
proof -
  have 1: "list_all (\<lambda>(k, v). a \<notin> set (Replace (Replace k [a] rep) [b] rep)
                   \<and> b \<notin> set (Replace (Replace k [a] rep) [b] rep)
                   \<and> a \<notin> set (Replace (Replace v [a] rep) [b] rep)
                   \<and> b \<notin> set (Replace (Replace v [a] rep) [b] rep)) m"
    using assms by (simp add: list_all_iff escaped_clean case_prod_unfold)
  have 2: "formatLabels name m [a] [b] rep =
           name @ concat (map (\<lambda>(k, v). [b] @ Replace (Replace k [a] rep) [b] rep @ [a]
                        @ Replace (Replace v [a] rep) [b] rep) m)"
    by (rule formatLabels_concat)
  have 3: "length (filter (\<lambda>c. c = a \<or> c = b)
           (drop (length name) (formatLabels name m [a] [b] rep))) = 2 * length m"
    unfolding 2 using separators_counted [OF assms] by simp
  from 1 2 3 show ?thesis by blast
qed

theorem formatLabels_separators_structural_witness:
  "CHR ''.'' \<notin> set ''_''
   \<and> formatLabels ''lines'' [(''file'', ''/var/log.1''), (''prog'', ''a.b'')] ''.'' ''.'' ''_''
        = ''lines.file./var/log_1.prog.a_b''
   \<and> length (filter (\<lambda>c. c = CHR ''.'' \<or> c = CHR ''.'')
        (drop (length ''lines'')
           (formatLabels ''lines'' [(''file'', ''/var/log.1''), (''prog'', ''a.b'')]
              ''.'' ''.'' ''_''))) = 4"
  using formatLabels_separators_structural
    [of "CHR ''.''" "''_''" "CHR ''.''" "[(''file'', ''/var/log.1''), (''prog'', ''a.b'')]"
        "''lines''"]
  by (simp add: Replace_def HasPrefix_def)

section \<open>The constructor\<close>

text \<open>
  C9. \<open>New\<close> returns an error and no exporter when the options hold no store; when
  they hold a store and a hostname is supplied or the system gives one, it returns an
  exporter (on that store) and no error.
\<close>

theorem New_needs_Store:
  "(Store opt = None \<longrightarrow> New env opt = Inl ''exporter needs a Store'')
   \<and> (Store opt = Some st \<and> (Hostname opt \<noteq> [] \<or> os_Hostname env = Inr h)
        \<longrightarrow> (\<exists>e. New env opt = Inr e \<and> store e = st))"
  by (auto simp: New_def Let_def RegisterPushExport_def)

theorem New_needs_Store_witness:
  "Store \<lparr>Store = None, Hostname = ''host'', OmitProgLabel = False\<rparr> = None
   \<and> New (example_env 60 (\<lambda>t n a. Inr healthy))
        \<lparr>Store = None, Hostname = ''host'', OmitProgLabel = False\<rparr>
      = Inl ''exporter needs a Store''
   \<and> os_Hostname (example_env 60 (\<lambda>t n a. Inr healthy)) = Inr ''host''
   \<and> (\<exists>e. New (example_env 60 (\<lambda>t n a. Inr healthy))
             \<lparr>Store = Some registry, Hostname = [], OmitProgLabel = False\<rparr> = Inr e
          \<and> store e = registry)"
  using New_needs_Store
      [of "\<lparr>Store = None, Hostname = ''host'', OmitProgLabel = False\<rparr>"
          "example_env 60 (\<lambda>t n a. Inr healthy)"]
    New_needs_Store
      [of "\<lparr>Store = Some registry, Hostname = [], OmitProgLabel = False\<rparr>"
          "example_env 60 (\<lambda>t n a. Inr healthy)" registry "''host''"]
  by (simp add: example_env_def)

section \<open>The socket writer and the push cycle\<close>

lemma write_events_append:
  "write_events we k (xs @ ys) =
     (case first_error we k xs of
        None \<Rightarrow> write_events we k xs @ write_events we (k + length xs) ys
      | Some err \<Rightarrow> write_events we k xs)"
  by (induction xs arbitrary: k) (auto split: option.splits)

lemma written_ok_append:
  "written_ok we k (xs @ ys) =
     (case first_error we k xs of
        None \<Rightarrow> written_ok we k xs + written_ok we (k + length xs) ys
      | Some err \<Rightarrow> written_ok we k xs)"
  by (induction xs arbitrary: k) (auto split: option.splits)

lemma first_error_append:
  "first_error we k (xs @ ys) =
     (case first_error we k xs of
        None \<Rightarrow> first_error we (k + length xs) ys
      | Some err \<Rightarrow> Some err)"
  by (induction xs arbitrary: k) (auto split: option.splits)

lemma length_write_events_ok:
  "first_error we k xs = None \<Longrightarrow> length (write_events we k xs) = length xs"
  by (induction xs arbitrary: k) (auto split: option.splits)

lemma range_lc_eq:
  "range_lc h f sv m ls c w =
     (map_option (\<lambda>err. ''write error: '' @ err @ [CHR 0x0A])
        (first_error (Write_err c) (nwrites c) (map (f h m) ls)),
      c\<lparr>nwrites := nwrites c + length (write_events (Write_err c) (nwrites c) (map (f h m) ls))\<rparr>,
      w\<lparr>vars := (vars w)(sv := vars w sv
                   + of_nat (written_ok (Write_err c) (nwrites c) (map (f h m) ls))),
        trace := trace w @ write_events (Write_err c) (nwrites c) (map (f h m) ls)\<rparr>)"
proof (induction ls arbitrary: c w)
  case Nil
  show ?case by simp
next
  case (Cons l ls)
  show ?case
  proof (cases "Write_err c (nwrites c)")
    case None
    have "(vars w)(sv := vars w sv + 1, sv := vars w sv + 1 + of_nat n) =
          (vars w)(sv := vars w sv + of_nat (Suc n))" for n
      by (simp add: fun_eq_iff add.assoc)
    with None show ?thesis
      by (simp add: Fprint_def Add_def Cons.IH Let_def add.assoc cong: if_cong)
  next
    case (Some err)
    then show ?thesis by (simp add: Fprint_def Let_def)
  qed
qed

lemma range_ml_append:
  "range_ml h f tv sv (xs @ ys) c w =
     (case range_ml h f tv sv xs c w of
        (Some err, c1, w1) \<Rightarrow> (Some err, c1, w1)
      | (None, c1, w1) \<Rightarrow> range_ml h f tv sv ys c1 w1)"
  by (induction xs arbitrary: c w) (auto split: prod.splits option.splits)

lemma range_Metrics_flat:
  "range_Metrics h f tv sv M c w = range_ml h f tv sv (concat (map snd M)) c w"
  by (induction M arbitrary: c w) (auto simp: range_ml_append split: prod.splits option.splits)


lemma range_ml_result:
  "fst (range_ml h f tv sv ml c w) =
     map_option (\<lambda>err. ''write error: '' @ err @ [CHR 0x0A])
       (first_error (Write_err c) (nwrites c) (concat (map (metric_lines h f) ml)))
   \<and> fst (snd (range_ml h f tv sv ml c w)) =
       c\<lparr>nwrites := nwrites c
           + length (write_events (Write_err c) (nwrites c) (concat (map (metric_lines h f) ml)))\<rparr>
   \<and> trace (snd (snd (range_ml h f tv sv ml c w))) =
       trace w @ write_events (Write_err c) (nwrites c) (concat (map (metric_lines h f) ml))"
proof (induction ml arbitrary: c w)
  case Nil
  show ?case by simp
next
  case (Cons m ml)
  show ?case
  proof (cases "first_error (Write_err c) (nwrites c) (metric_lines h f m)")
    case None
    then show ?thesis
      using length_write_events_ok [OF None]
      by (simp add: range_lc_eq metric_lines_def [symmetric] Cons.IH write_events_append
          first_error_append Add_def Metric_RLock_def Metric_RUnlock_def Let_def add.assoc)
  next
    case (Some err)
    then show ?thesis
      by (simp add: range_lc_eq metric_lines_def [symmetric] write_events_append
          first_error_append Add_def Metric_RLock_def Metric_RUnlock_def Let_def)
  qed
qed

lemma range_ml_success:
  "sv \<noteq> tv \<Longrightarrow>
   vars (snd (snd (range_ml h f tv sv ml c w))) sv =
     vars w sv + of_nat (written_ok (Write_err c) (nwrites c) (concat (map (metric_lines h f) ml)))"
proof (induction ml arbitrary: c w)
  case Nil
  show ?case by simp
next
  case (Cons m ml)
  show ?case
  proof (cases "first_error (Write_err c) (nwrites c) (metric_lines h f m)")
    case None
    then show ?thesis
      using length_write_events_ok [OF None] Cons.prems
      by (simp add: range_lc_eq metric_lines_def [symmetric] Cons.IH [OF Cons.prems] written_ok_append
          Add_def Metric_RLock_def Metric_RUnlock_def Let_def add.assoc)
  next
    case (Some err)
    then show ?thesis
      using Cons.prems
      by (simp add: range_lc_eq metric_lines_def [symmetric] written_ok_append
          Add_def Metric_RLock_def Metric_RUnlock_def Let_def)
  qed
qed

lemma range_ml_total:
  "sv \<noteq> tv \<Longrightarrow>
   first_error (Write_err c) (nwrites c) (concat (map (metric_lines h f) ml)) = None \<Longrightarrow>
   vars (snd (snd (range_ml h f tv sv ml c w))) tv = vars w tv + of_nat (length ml)"
proof (induction ml arbitrary: c w)
  case Nil
  show ?case by simp
next
  case (Cons m ml)
  from Cons.prems(2) have 1: "first_error (Write_err c) (nwrites c) (metric_lines h f m) = None"
    by (simp add: first_error_append split: option.splits)
  with Cons.prems(2) have 2: "first_error (Write_err c) (nwrites c + length (metric_lines h f m))
      (concat (map (metric_lines h f) ml)) = None"
    by (simp add: first_error_append)
  show ?case
    using 1 2 length_write_events_ok [OF 1] Cons.prems(1)
    by (simp add: range_lc_eq metric_lines_def [symmetric] Cons.IH [OF Cons.prems(1)]
        Add_def Metric_RLock_def Metric_RUnlock_def Let_def add.assoc)
qed

lemma range_ml_locks:
  "store_readers (snd (snd (range_ml h f tv sv ml c w))) = store_readers w
   \<and> (fst (range_ml h f tv sv ml c w) = None \<longrightarrow>
        metric_readers (snd (snd (range_ml h f tv sv ml c w))) = metric_readers w)"
proof (induction ml arbitrary: c w)
  case Nil
  show ?case by simp
next
  case (Cons m ml)
  show ?case
  proof (cases "first_error (Write_err c) (nwrites c) (metric_lines h f m)")
    case None
    then show ?thesis
      by (simp add: range_lc_eq metric_lines_def [symmetric] Cons.IH
          Add_def Metric_RLock_def Metric_RUnlock_def Let_def)
  next
    case (Some err)
    then show ?thesis
      by (simp add: range_lc_eq metric_lines_def [symmetric]
          Add_def Metric_RLock_def Metric_RUnlock_def Let_def)
  qed
qed


lemma writeSocketMetrics_result:
  "fst (writeSocketMetrics e c f tv sv w) =
     map_option (\<lambda>err. ''write error: '' @ err @ [CHR 0x0A])
       (first_error (Write_err c) (nwrites c) (store_lines (Hostname (opts e)) f (store e)))
   \<and> fst (snd (writeSocketMetrics e c f tv sv w)) =
       c\<lparr>nwrites := nwrites c
           + length (write_events (Write_err c) (nwrites c)
                       (store_lines (Hostname (opts e)) f (store e)))\<rparr>
   \<and> trace (snd (snd (writeSocketMetrics e c f tv sv w))) =
       trace w @ write_events (Write_err c) (nwrites c) (store_lines (Hostname (opts e)) f (store e))"
  using range_ml_result [of "Hostname (opts e)" f tv sv "all_metrics (store e)" c "Store_RLock w"]
  by (simp add: writeSocketMetrics_def range_Metrics_flat store_lines_def all_metrics_def
      Store_RLock_def Store_RUnlock_def case_prod_beta)

lemma writeSocketMetrics_success:
  "sv \<noteq> tv \<Longrightarrow>
   vars (snd (snd (writeSocketMetrics e c f tv sv w))) sv =
     vars w sv + of_nat (written_ok (Write_err c) (nwrites c)
                           (store_lines (Hostname (opts e)) f (store e)))"
  using range_ml_success [of sv tv "Hostname (opts e)" f "all_metrics (store e)" c "Store_RLock w"]
  by (simp add: writeSocketMetrics_def range_Metrics_flat store_lines_def all_metrics_def
      Store_RLock_def Store_RUnlock_def case_prod_beta)

lemma writeSocketMetrics_total:
  "sv \<noteq> tv \<Longrightarrow>
   first_error (Write_err c) (nwrites c) (store_lines (Hostname (opts e)) f (store e)) = None \<Longrightarrow>
   vars (snd (snd (writeSocketMetrics e c f tv sv w))) tv
     = vars w tv + of_nat (length (all_metrics (store e)))"
  using range_ml_total [of sv tv c "Hostname (opts e)" f "all_metrics (store e)" "Store_RLock w"]
  by (simp add: writeSocketMetrics_def range_Metrics_flat store_lines_def all_metrics_def
      Store_RLock_def Store_RUnlock_def case_prod_beta)

lemma writeSocketMetrics_locks:
  "store_readers (snd (snd (writeSocketMetrics e c f tv sv w))) = store_readers w
   \<and> (fst (writeSocketMetrics e c f tv sv w) = None \<longrightarrow>
        metric_readers (snd (snd (writeSocketMetrics e c f tv sv w))) = metric_readers w)"
  using range_ml_locks [of "Hostname (opts e)" f tv sv "all_metrics (store e)" c "Store_RLock w"]
  by (simp add: writeSocketMetrics_def range_Metrics_flat store_lines_def all_metrics_def
      Store_RLock_def Store_RUnlock_def case_prod_beta)

lemma write_events_fail_at:
  "j < length L \<Longrightarrow> (\<And>k. k < j \<Longrightarrow> we (k0 + k) = None) \<Longrightarrow> we (k0 + j) = Some err \<Longrightarrow>
   write_events we k0 L = map (\<lambda>l. Write l None) (take j L) @ [Write (L ! j) (Some err)]
   \<and> written_ok we k0 L = j \<and> first_error we k0 L = Some err"
proof (induction L arbitrary: k0 j)
  case Nil
  then show ?case by simp
next
  case (Cons l L)
  show ?case
  proof (cases j)
    case 0
    with Cons.prems show ?thesis by simp
  next
    case (Suc j')
    from Cons.prems(2) [of 0] Suc have h: "we k0 = None" by simp
    have "write_events we (Suc k0) L = map (\<lambda>l. Write l None) (take j' L) @ [Write (L ! j') (Some err)]
      \<and> written_ok we (Suc k0) L = j' \<and> first_error we (Suc k0) L = Some err"
    proof (rule Cons.IH)
      show "j' < length L" using Cons.prems(1) Suc by simp
      show "we (Suc k0 + k) = None" if "k < j'" for k
        using Cons.prems(2) [of "Suc k"] that Suc by simp
      show "we (Suc k0 + j') = Some err" using Cons.prems(3) Suc by simp
    qed
    with h Suc show ?thesis by simp
  qed
qed

lemma write_events_all_ok:
  "(\<And>k. k < length L \<Longrightarrow> we (k0 + k) = None) \<Longrightarrow>
   write_events we k0 L = map (\<lambda>l. Write l None) L
   \<and> written_ok we k0 L = length L \<and> first_error we k0 L = None"
proof (induction L arbitrary: k0)
  case Nil
  then show ?case by simp
next
  case (Cons l L)
  from Cons.prems [of 0] have h: "we k0 = None" by simp
  have "write_events we (Suc k0) L = map (\<lambda>l. Write l None) L
      \<and> written_ok we (Suc k0) L = length L \<and> first_error we (Suc k0) L = None"
  proof (rule Cons.IH)
    show "we (Suc k0 + k) = None" if "k < length L" for k
      using Cons.prems [of "Suc k"] that by simp
  qed
  with h show ?case by simp
qed

lemma is_Write_write_events: "list_all is_Write (write_events we k L)"
  by (induction L arbitrary: k) (auto split: option.splits)

lemma dials_append: "dials (xs @ ys) = dials xs @ dials ys"
  by (induction xs rule: dials.induct) auto

lemma dials_write_events: "dials (write_events we k L) = []"
  by (induction L arbitrary: k) (auto split: option.splits)

lemma PushMetrics_range_append:
  "PushMetrics_range env e (xs @ ys) w = PushMetrics_range env e ys (PushMetrics_range env e xs w)"
  by (induction xs arbitrary: w) (auto simp: Let_def split: sum.splits prod.splits)

text \<open>One target whose dial fails.\<close>

lemma PushMetrics_range_dial_failed:
  "net_DialTimeout env (length (trace w)) (net target) (addr target) = Inl err \<Longrightarrow>
   PushMetrics_range env e (target # rest) w =
     PushMetrics_range env e rest
       (w\<lparr>trace := trace w @ [Dial (net target) (addr target) (writeDeadline env) (Some err)]\<rparr>)"
  by simp

text \<open>One target whose dial succeeds.\<close>

lemma PushMetrics_range_dialled:
  "net_DialTimeout env (length (trace w)) (net target) (addr target) = Inr c \<Longrightarrow>
   PushMetrics_range env e (target # rest) w = PushMetrics_range env e rest (pushed env e target c w)"
  using writeSocketMetrics_result [of e c "fmt_f target" "total_var target" "success_var target"
      "w\<lparr>trace := trace w @ [Dial (net target) (addr target) (writeDeadline env) None,
                      SetDeadline (writeDeadline env) (SetDeadline_err c)]\<rparr>"]
  by (simp add: pushed_def Let_def case_prod_beta)

lemma trace_pushed:
  "trace (pushed env e target c w) =
     trace w @ Dial (net target) (addr target) (writeDeadline env) None
       # SetDeadline (writeDeadline env) (SetDeadline_err c)
       # write_events (Write_err c) (nwrites c)
           (store_lines (Hostname (opts e)) (fmt_f target) (store e))
       @ [Close (Close_err c)]"
  using writeSocketMetrics_result [of e c "fmt_f target" "total_var target" "success_var target"
      "w\<lparr>trace := trace w @ [Dial (net target) (addr target) (writeDeadline env) None,
                      SetDeadline (writeDeadline env) (SetDeadline_err c)]\<rparr>"]
  by (simp add: pushed_def Let_def)

lemma success_pushed:
  "success_var target \<noteq> total_var target \<Longrightarrow>
   vars (pushed env e target c w) (success_var target) =
     vars w (success_var target)
       + of_nat (written_ok (Write_err c) (nwrites c)
           (store_lines (Hostname (opts e)) (fmt_f target) (store e)))"
  using writeSocketMetrics_success [of "success_var target" "total_var target" e c "fmt_f target"
      "w\<lparr>trace := trace w @ [Dial (net target) (addr target) (writeDeadline env) None,
                      SetDeadline (writeDeadline env) (SetDeadline_err c)]\<rparr>"]
  by (simp add: pushed_def Let_def)

lemma dials_PushMetrics_range:
  "dials (trace (PushMetrics_range env e ts w)) = dials (trace w) @ map (\<lambda>t. (net t, addr t)) ts"
proof (induction ts arbitrary: w)
  case Nil
  show ?case by simp
next
  case (Cons target rest)
  show ?case
  proof (cases "net_DialTimeout env (length (trace w)) (net target) (addr target)")
    case (Inl err)
    show ?thesis
      by (simp only: PushMetrics_range_dial_failed [OF Inl] Cons.IH)
         (simp add: dials_append)
  next
    case (Inr c)
    show ?thesis
      by (simp only: PushMetrics_range_dialled [OF Inr] Cons.IH trace_pushed)
         (simp add: dials_append dials_write_events)
  qed
qed

lemma PushMetrics_range_segments:
  "\<exists>segs. list_all2 (is_push env) ts segs
      \<and> trace (PushMetrics_range env e ts w) = trace w @ concat segs"
proof (induction ts arbitrary: w)
  case Nil
  show ?case by simp
next
  case (Cons target rest)
  show ?case
  proof (cases "net_DialTimeout env (length (trace w)) (net target) (addr target)")
    case (Inl err)
    let ?seg = "[Dial (net target) (addr target) (writeDeadline env) (Some err)]"
    from Cons.IH [of "w\<lparr>trace := trace w @ ?seg\<rparr>"]
    obtain segs where s: "list_all2 (is_push env) rest segs"
      and t: "trace (PushMetrics_range env e rest (w\<lparr>trace := trace w @ ?seg\<rparr>))
               = trace w @ ?seg @ concat segs"
      by auto
    have "list_all2 (is_push env) (target # rest) (?seg # segs)" using s by simp
    moreover have "trace (PushMetrics_range env e (target # rest) w) = trace w @ concat (?seg # segs)"
      using t by (simp only: PushMetrics_range_dial_failed [OF Inl]) simp
    ultimately show ?thesis by blast
  next
    case (Inr c)
    let ?ws = "write_events (Write_err c) (nwrites c)
                 (store_lines (Hostname (opts e)) (fmt_f target) (store e))"
    let ?seg = "Dial (net target) (addr target) (writeDeadline env) None
                  # SetDeadline (writeDeadline env) (SetDeadline_err c) # ?ws @ [Close (Close_err c)]"
    from Cons.IH [of "pushed env e target c w"]
    obtain segs where s: "list_all2 (is_push env) rest segs"
      and t: "trace (PushMetrics_range env e rest (pushed env e target c w))
               = trace (pushed env e target c w) @ concat segs"
      by auto
    have "is_push env target ?seg"
      by (simp add: is_Write_write_events)
    then have "list_all2 (is_push env) (target # rest) (?seg # segs)" using s by simp
    moreover have "trace (PushMetrics_range env e (target # rest) w) = trace w @ concat (?seg # segs)"
      using t by (simp only: PushMetrics_range_dialled [OF Inr] trace_pushed) simp
    ultimately show ?thesis by blast
  qed
qed

lemma ticker_loop_ticks:
  "\<exists>ticks. length ticks = n
      \<and> list_all (list_all2 (is_push env) (pushTargets e)) ticks
      \<and> trace (ticker_loop env e n w) = trace w @ concat (map concat ticks)"
proof (induction n arbitrary: w)
  case 0
  show ?case by simp
next
  case (Suc n)
  obtain segs where s: "list_all2 (is_push env) (pushTargets e) segs"
    and t: "trace (PushMetrics env e w) = trace w @ concat segs"
    using PushMetrics_range_segments [of env "pushTargets e" e w] by (auto simp: PushMetrics_def)
  from Suc [of "PushMetrics env e w"]
  obtain ticks where l: "length ticks = n"
    and a: "list_all (list_all2 (is_push env) (pushTargets e)) ticks"
    and u: "trace (ticker_loop env e n (PushMetrics env e w))
              = trace (PushMetrics env e w) @ concat (map concat ticks)"
    by auto
  have "length (segs # ticks) = Suc n" using l by simp
  moreover have "list_all (list_all2 (is_push env) (pushTargets e)) (segs # ticks)"
    using s a by simp
  moreover have "trace (ticker_loop env e (Suc n) w) = trace w @ concat (map concat (segs # ticks))"
    using t u by simp
  ultimately show ?case by blast
qed

text \<open>
  C1. One push cycle over a healthy connection, for the registry with the one metric
  \<open>requests\<close> holding two label sets and one target: both lines are written and the
  success counter rises by 2, but the attempted counter rises by 1, since
  \<^verbatim>\<open>exportTotal.Add(1)\<close> stands before the loop over the label sets (lemma
  \<open>writeSocketMetrics_total\<close>: over a healthy connection it rises by the number of metrics).
\<close>

theorem PushMetrics_attempted_per_metric:
  "vars (PushMetrics (example_env 60 (\<lambda>t n a. Inr healthy)) (example_exporter [example_target]) world0)
     ''exportTotal'' = 1
   \<and> vars (PushMetrics (example_env 60 (\<lambda>t n a. Inr healthy)) (example_exporter [example_target]) world0)
     ''exportSuccess'' = 2
   \<and> trace (PushMetrics (example_env 60 (\<lambda>t n a. Inr healthy)) (example_exporter [example_target]) world0)
      = [Dial ''tcp'' ''graphite:2003'' (10 * Second) None, SetDeadline (10 * Second) None,
         Write ''host.requests,region=us'' None, Write ''host.requests,region=eu'' None,
         Close None]"
  by (simp add: PushMetrics_def example_env_def example_exporter_def example_target_def world0_def
      healthy_def writeSocketMetrics_def registry_def requests_def Let_def Fprint_def Add_def
      Store_RLock_def Store_RUnlock_def Metric_RLock_def Metric_RUnlock_def
      example_formatter_def formatLabels_def Replace_def HasPrefix_def)

text \<open>
  C2. \<^verbatim>\<open>writeSocketMetrics\<close> on the same registry with a connection whose first write
  fails: it returns the write error, the store's read lock is released (by the
  \<^verbatim>\<open>defer\<close>), and the read lock of the metric is still held, since the return
  comes before \<^verbatim>\<open>m.RUnlock()\<close>. (When it returns \<^verbatim>\<open>nil\<close> every lock is
  released: lemma \<open>writeSocketMetrics_locks\<close>.)
\<close>

theorem writeSocketMetrics_error_keeps_metric_lock:
  "fst (writeSocketMetrics (example_exporter []) (fails_at 0) example_formatter
          ''exportTotal'' ''exportSuccess'' world0)
     = Some (''write error: broken pipe'' @ [CHR 0x0A])
   \<and> metric_readers (snd (snd (writeSocketMetrics (example_exporter []) (fails_at 0) example_formatter
          ''exportTotal'' ''exportSuccess'' world0))) (mid requests) = 1
   \<and> store_readers (snd (snd (writeSocketMetrics (example_exporter []) (fails_at 0) example_formatter
          ''exportTotal'' ''exportSuccess'' world0))) = 0
   \<and> metric_readers world0 (mid requests) = 0"
  by (simp add: example_exporter_def world0_def
      fails_at_def writeSocketMetrics_def registry_def requests_def Let_def Fprint_def Add_def
      Store_RLock_def Store_RUnlock_def Metric_RLock_def Metric_RUnlock_def
      example_formatter_def formatLabels_def Replace_def HasPrefix_def)

text \<open>
  C4. If the dial to a target succeeds and the \<open>i\<close>-th write on the connection is the
  first that fails, then the events of this target are the dial, the deadline, the
  \<open>i - 1\<close> successful writes of the first \<open>i - 1\<close> lines, the failed write of the
  \<open>i\<close>-th line and the close, nothing more; the success counter has risen by
  \<open>i - 1\<close>; and the loop of \<open>PushMetrics\<close> goes on with the remaining targets. (The
  two counters of the target are taken to be different variables.)
\<close>

theorem PushMetrics_write_failure:
  assumes dial: "net_DialTimeout env (length (trace w)) (net target) (addr target) = Inr c"
    and pos: "0 < i"
    and len: "i \<le> length (store_lines (Hostname (opts e)) (fmt_f target) (store e))"
    and ok: "\<forall>k. k < i - 1 \<longrightarrow> Write_err c (nwrites c + k) = None"
    and fail: "Write_err c (nwrites c + (i - 1)) = Some err"
    and counters: "success_var target \<noteq> total_var target"
  shows "\<exists>w'. PushMetrics_range env e (target # rest) w = PushMetrics_range env e rest w'
     \<and> trace w' =
         trace w @ [Dial (net target) (addr target) (writeDeadline env) None,
                    SetDeadline (writeDeadline env) (SetDeadline_err c)]
         @ map (\<lambda>l. Write l None)
             (take (i - 1) (store_lines (Hostname (opts e)) (fmt_f target) (store e)))
         @ [Write (store_lines (Hostname (opts e)) (fmt_f target) (store e) ! (i - 1)) (Some err),
            Close (Close_err c)]
     \<and> vars w' (success_var target) = vars w (success_var target) + of_nat (i - 1)"
proof -
  let ?L = "store_lines (Hostname (opts e)) (fmt_f target) (store e)"
  have j: "i - 1 < length ?L" using pos len by simp
  have ev: "write_events (Write_err c) (nwrites c) ?L =
      map (\<lambda>l. Write l None) (take (i - 1) ?L) @ [Write (?L ! (i - 1)) (Some err)]
    \<and> written_ok (Write_err c) (nwrites c) ?L = i - 1
    \<and> first_error (Write_err c) (nwrites c) ?L = Some err"
    using write_events_fail_at [of "i - 1" ?L "Write_err c" "nwrites c" err] j ok fail
    by blast
  have 1: "PushMetrics_range env e (target # rest) w
      = PushMetrics_range env e rest (pushed env e target c w)"
    by (rule PushMetrics_range_dialled [OF dial])
  have 2: "trace (pushed env e target c w) =
         trace w @ [Dial (net target) (addr target) (writeDeadline env) None,
                    SetDeadline (writeDeadline env) (SetDeadline_err c)]
         @ map (\<lambda>l. Write l None) (take (i - 1) ?L)
         @ [Write (?L ! (i - 1)) (Some err), Close (Close_err c)]"
    using ev by (simp add: trace_pushed)
  have 3: "vars (pushed env e target c w) (success_var target)
      = vars w (success_var target) + of_nat (i - 1)"
    using ev by (simp add: success_pushed [OF counters])
  from 1 2 3 show ?thesis by blast
qed

theorem PushMetrics_write_failure_witness:
  "net_DialTimeout (example_env 60 (\<lambda>t n a. Inr (fails_at 1))) (length (trace world0))
       (net example_target) (addr example_target) = Inr (fails_at 1)
   \<and> (0::nat) < 2
   \<and> 2 \<le> length (store_lines (Hostname (opts (example_exporter [example_target])))
                  (fmt_f example_target) (store (example_exporter [example_target])))
   \<and> Write_err (fails_at 1) (nwrites (fails_at 1) + 0) = None
   \<and> Write_err (fails_at 1) (nwrites (fails_at 1) + (2 - 1)) = Some ''broken pipe''
   \<and> success_var example_target \<noteq> total_var example_target
   \<and> (\<exists>w'. PushMetrics_range (example_env 60 (\<lambda>t n a. Inr (fails_at 1)))
               (example_exporter [example_target]) [example_target] world0 = w'
        \<and> trace w' =
            [Dial ''tcp'' ''graphite:2003'' (10 * Second) None, SetDeadline (10 * Second) None,
             Write ''host.requests,region=us'' None,
             Write ''host.requests,region=eu'' (Some ''broken pipe''), Close None]
        \<and> vars w' ''exportSuccess'' = vars world0 ''exportSuccess'' + 1)"
proof -
  let ?env = "example_env 60 (\<lambda>t n a. Inr (fails_at 1))"
  let ?e = "example_exporter [example_target]"
  have lines: "store_lines (Hostname (opts ?e)) (fmt_f example_target) (store ?e)
      = [''host.requests,region=us'', ''host.requests,region=eu'']"
    by (simp add: store_lines_def all_metrics_def metric_lines_def example_exporter_def
        example_target_def registry_def requests_def example_formatter_def formatLabels_def
        Replace_def HasPrefix_def)
  have d: "net_DialTimeout ?env (length (trace world0)) (net example_target) (addr example_target)
      = Inr (fails_at 1)"
    by (simp add: example_env_def)
  have p: "(0::nat) < 2" by simp
  have l: "2 \<le> length (store_lines (Hostname (opts ?e)) (fmt_f example_target) (store ?e))"
    by (simp add: lines)
  have ok: "\<forall>k. k < 2 - 1 \<longrightarrow> Write_err (fails_at 1) (nwrites (fails_at 1) + k) = None"
    by (simp add: fails_at_def)
  have f: "Write_err (fails_at 1) (nwrites (fails_at 1) + (2 - 1)) = Some ''broken pipe''"
    by (simp add: fails_at_def)
  have cs: "success_var example_target \<noteq> total_var example_target"
    by (simp add: example_target_def)
  from PushMetrics_write_failure [OF d p l ok f cs, where rest = "[]"] lines
  have "\<exists>w'. PushMetrics_range ?env ?e [example_target] world0 = w'
        \<and> trace w' =
            [Dial ''tcp'' ''graphite:2003'' (10 * Second) None, SetDeadline (10 * Second) None,
             Write ''host.requests,region=us'' None,
             Write ''host.requests,region=eu'' (Some ''broken pipe''), Close None]
        \<and> vars w' ''exportSuccess'' = vars world0 ''exportSuccess'' + 1"
    by (simp add: example_target_def example_env_def fails_at_def world0_def)
  with d l f cs ok show ?thesis by simp
qed

text \<open>
  C5. If the dial to a target fails, wherever the target stands in the list, then after
  this target the world is the one before it with the failed dial as the only new event (no
  counter changed, no deadline, no write, no close), the loop goes on with the targets after
  it, and the dial attempts of the whole tick are all targets of the list, in order.
\<close>

theorem PushMetrics_dial_failure:
  assumes "net_DialTimeout env (length (trace (PushMetrics_range env e pre w))) (net target) (addr target)
             = Inl err"
  shows "PushMetrics_range env e (pre @ [target]) w =
           (PushMetrics_range env e pre w)
             \<lparr>trace := trace (PushMetrics_range env e pre w)
                 @ [Dial (net target) (addr target) (writeDeadline env) (Some err)]\<rparr>
     \<and> vars (PushMetrics_range env e (pre @ [target]) w) = vars (PushMetrics_range env e pre w)
     \<and> PushMetrics_range env e (pre @ target # post) w =
         PushMetrics_range env e post (PushMetrics_range env e (pre @ [target]) w)
     \<and> dials (trace (PushMetrics_range env e (pre @ target # post) w)) =
         dials (trace w) @ map (\<lambda>t. (net t, addr t)) (pre @ target # post)"
proof -
  have 1: "PushMetrics_range env e (pre @ [target]) w =
           (PushMetrics_range env e pre w)
             \<lparr>trace := trace (PushMetrics_range env e pre w)
                 @ [Dial (net target) (addr target) (writeDeadline env) (Some err)]\<rparr>"
    using assms by (simp add: PushMetrics_range_append)
  have 2: "PushMetrics_range env e (pre @ target # post) w =
         PushMetrics_range env e post (PushMetrics_range env e (pre @ [target]) w)"
    using PushMetrics_range_append [of env e "pre @ [target]" post w] by simp
  have 3: "vars (PushMetrics_range env e (pre @ [target]) w) = vars (PushMetrics_range env e pre w)"
    by (simp add: 1)
  from 1 2 3 dials_PushMetrics_range [of env e "pre @ target # post" w] show ?thesis by blast
qed

theorem PushMetrics_dial_failure_witness:
  "net_DialTimeout
      (example_env 60 (\<lambda>t n a. if a = ''down:1'' then Inl ''connection refused'' else Inr healthy))
      (length (trace (PushMetrics_range
         (example_env 60 (\<lambda>t n a. if a = ''down:1'' then Inl ''connection refused'' else Inr healthy))
         (example_exporter [example_target\<lparr>addr := ''down:1''\<rparr>, example_target]) [] world0)))
      (net (example_target\<lparr>addr := ''down:1''\<rparr>)) (addr (example_target\<lparr>addr := ''down:1''\<rparr>))
     = Inl ''connection refused''
   \<and> PushMetrics_range
        (example_env 60 (\<lambda>t n a. if a = ''down:1'' then Inl ''connection refused'' else Inr healthy))
        (example_exporter [example_target\<lparr>addr := ''down:1''\<rparr>, example_target])
        [example_target\<lparr>addr := ''down:1''\<rparr>] world0
      = world0\<lparr>trace := [Dial ''tcp'' ''down:1'' (10 * Second) (Some ''connection refused'')]\<rparr>
   \<and> dials (trace (PushMetrics_range
        (example_env 60 (\<lambda>t n a. if a = ''down:1'' then Inl ''connection refused'' else Inr healthy))
        (example_exporter [example_target\<lparr>addr := ''down:1''\<rparr>, example_target])
        [example_target\<lparr>addr := ''down:1''\<rparr>, example_target] world0))
      = [(''tcp'', ''down:1''), (''tcp'', ''graphite:2003'')]"
proof -
  let ?env = "example_env 60 (\<lambda>t n a. if a = ''down:1'' then Inl ''connection refused'' else Inr healthy)"
  let ?down = "example_target\<lparr>addr := ''down:1''\<rparr>"
  let ?e = "example_exporter [?down, example_target]"
  have h: "net_DialTimeout ?env (length (trace (PushMetrics_range ?env ?e [] world0)))
      (net ?down) (addr ?down) = Inl ''connection refused''"
    by (simp add: example_env_def)
  from PushMetrics_dial_failure [OF h, of "[example_target]"] h show ?thesis
    by (simp add: example_env_def example_target_def world0_def)
qed

text \<open>
  C8, as stated: with at least one target registered a ticker at the configured interval
  is started. It fails for an interval that is not positive: with the flag at 0 and one
  target, \<^verbatim>\<open>time.NewTicker\<close> panics and nothing is pushed.
\<close>

theorem StartMetricPush_zero_interval_panics:
  "pushTargets (example_exporter [example_target]) \<noteq> []
   \<and> StartMetricPush (example_env 0 (\<lambda>t n a. Inr healthy)) (example_exporter [example_target])
       = Inl ''non-positive interval for NewTicker''
   \<and> background (example_env 0 (\<lambda>t n a. Inr healthy)) (example_exporter [example_target]) 1 world0
       = Inl ''non-positive interval for NewTicker''"
  by (simp add: StartMetricPush_def background_def NewTicker_def example_env_def
      example_exporter_def Second_def)

lemma sint_word_of_int_64:
  "- (2 ^ 63) \<le> k \<Longrightarrow> k < 2 ^ 63 \<Longrightarrow> sint (word_of_int k :: 64 word) = k"
  by (simp add: sint_sbintrunc' signed_take_bit_int_eq_self)

lemma seconds_fit:
  assumes "0 < x" "x \<le> 9223372036"
  shows "sint (word_of_int x * Second :: 64 word) = x * 1000000000"
proof -
  have eq: "(word_of_int x * Second :: 64 word) = word_of_int (x * 1000000000)"
    by (simp add: Second_def)
  have "sint (word_of_int (x * 1000000000) :: 64 word) = x * 1000000000"
    by (rule sint_word_of_int_64) (use assms in simp_all)
  then show ?thesis unfolding eq .
qed

text \<open>
  C8, amended. With no target registered \<open>StartMetricPush\<close> starts no ticker and the
  world never changes. With at least one target and a configured interval from 1 to
  9223372036 seconds (the intervals whose number of nanoseconds fits 64 bits), a ticker
  whose period is exactly that number of seconds is started, and after \<open>n\<close> ticks the
  new events are \<open>n\<close> blocks, one for each tick, each made of one complete push for
  each registered target, in the order of the list: a failed dial alone, or dial,
  deadline, writes and close, before the next target's dial.
\<close>

theorem StartMetricPush_ticks:
  "(pushTargets e = [] \<longrightarrow> StartMetricPush env e = Inr None \<and> background env e n w = Inr w)
   \<and> (pushTargets e \<noteq> [] \<and> 0 < pushInterval env \<and> pushInterval env \<le> 9223372036 \<longrightarrow>
        StartMetricPush env e = Inr (Some \<lparr>period = word_of_int (pushInterval env) * Second\<rparr>)
      \<and> sint (word_of_int (pushInterval env) * Second :: 64 word)
          = pushInterval env * 1000000000
      \<and> background env e n w = Inr (ticker_loop env e n w)
      \<and> (\<exists>ticks. length ticks = n
            \<and> list_all (list_all2 (is_push env) (pushTargets e)) ticks
            \<and> trace (ticker_loop env e n w) = trace w @ concat (map concat ticks)))"
proof -
  have none: "StartMetricPush env e = Inr None \<and> background env e n w = Inr w"
    if "pushTargets e = []"
    using that by (simp add: StartMetricPush_def background_def)
  have some: "StartMetricPush env e = Inr (Some \<lparr>period = word_of_int (pushInterval env) * Second\<rparr>)
      \<and> sint (word_of_int (pushInterval env) * Second :: 64 word) = pushInterval env * 1000000000
      \<and> background env e n w = Inr (ticker_loop env e n w)"
    if "pushTargets e \<noteq> []" "0 < pushInterval env" "pushInterval env \<le> 9223372036"
    using that seconds_fit [OF that(2,3)]
    by (simp add: StartMetricPush_def background_def NewTicker_def)
  from none some ticker_loop_ticks [of n env e w] show ?thesis by blast
qed

theorem StartMetricPush_ticks_witness:
  "pushTargets (example_exporter []) = []
   \<and> StartMetricPush (example_env 60 (\<lambda>t n a. Inr healthy)) (example_exporter []) = Inr None
   \<and> background (example_env 60 (\<lambda>t n a. Inr healthy)) (example_exporter []) 5 world0 = Inr world0
   \<and> pushTargets (example_exporter [example_target]) \<noteq> []
   \<and> 0 < pushInterval (example_env 60 (\<lambda>t n a. Inr healthy))
   \<and> pushInterval (example_env 60 (\<lambda>t n a. Inr healthy)) \<le> 9223372036
   \<and> StartMetricPush (example_env 60 (\<lambda>t n a. Inr healthy)) (example_exporter [example_target])
       = Inr (Some \<lparr>period = 60000000000\<rparr>)
   \<and> sint (60000000000 :: 64 word) = 60 * 1000000000
   \<and> (\<exists>ticks. length ticks = 2
         \<and> list_all (list_all2 (is_push (example_env 60 (\<lambda>t n a. Inr healthy)))
                       (pushTargets (example_exporter [example_target]))) ticks
         \<and> trace (ticker_loop (example_env 60 (\<lambda>t n a. Inr healthy))
                     (example_exporter [example_target]) 2 world0)
             = trace world0 @ concat (map concat ticks))"
proof -
  let ?env = "example_env 60 (\<lambda>t n a. Inr healthy)"
  have a: "pushTargets (example_exporter []) = []"
    by (simp add: example_exporter_def)
  have b: "pushTargets (example_exporter [example_target]) \<noteq> []"
    by (simp add: example_exporter_def)
  have c: "0 < pushInterval ?env" "pushInterval ?env \<le> 9223372036"
    by (simp_all add: example_env_def)
  have d: "(word_of_int (pushInterval ?env) * Second :: 64 word) = 60000000000"
    by (simp add: example_env_def Second_def)
  from StartMetricPush_ticks [of "example_exporter []" ?env 5 world0] a
    StartMetricPush_ticks [of "example_exporter [example_target]" ?env 2 world0] b c d
  show ?thesis by simp
qed

end
